theory Spec2Isabelle
  imports Complex_Main "HOL-Library.Char_ord" "HOL-Library.List_Lexorder" "HOL-Library.Multiset"
begin

section \<open>Records and tables\<close>

text \<open>
  A cell of the DataFrame is either a value or pandas' null (NaN / None), so every column
  is an \<open>option\<close>. Text columns hold strings; \<open>MonthlyCostUSD\<close> is numeric and is kept
  as an exact rational (the rounding of binary floating point is not part of the model).
  A table is the list of its rows, in row order.
\<close>

record resource =
  ResourceID :: "string option"
  Department :: "string option"
  Project :: "string option"
  Owner :: "string option"
  CostCenter :: "string option"
  Service :: "string option"
  Region :: "string option"
  Environment :: "string option"
  Tagged :: "string option"
  MonthlyCostUSD :: "rat option"

text \<open>The table after line 93 has one more column.\<close>

record scored_resource = resource +
  TagCompletenessScore :: int

datatype py_error =
  FileNotFoundError | ZeroDivisionError | ValueError | ParserError | EmptyDataError

section \<open>Numbers: Python and numpy true division\<close>

text \<open>
  \<open>/\<close> on two Python ints raises \<open>ZeroDivisionError\<close> when the divisor is zero. As soon
  as one operand is a numpy scalar the division is numpy's: it raises nothing and returns
  \<open>nan\<close> or an infinity.
\<close>

datatype npfloat = Finite rat | PosInf | NegInf | NaN

definition py_truediv :: "rat \<Rightarrow> rat \<Rightarrow> py_error + npfloat" where
  "py_truediv a b = (if b = 0 then Inl ZeroDivisionError else Inr (Finite (a / b)))"

definition np_truediv :: "rat \<Rightarrow> rat \<Rightarrow> npfloat" where
  "np_truediv a b =
     (if b = 0 then (if a = 0 then NaN else if 0 < a then PosInf else NegInf)
      else Finite (a / b))"

fun times_100 :: "npfloat \<Rightarrow> npfloat" where
  "times_100 (Finite x) = Finite (x * 100)"
| "times_100 PosInf = PosInf"
| "times_100 NegInf = NegInf"
| "times_100 NaN = NaN"

section \<open>Series operations used by the script\<close>

text \<open>
  \<open>Series.value_counts()\<close>: one entry per distinct non-null value with the number of
  its occurrences (nulls are dropped: \<open>dropna=True\<close> is the default). The order in which
  pandas lists the entries is for display only and is not modelled.
\<close>

definition value_counts :: "string option list \<Rightarrow> (string \<times> nat) list" where
  "value_counts col =
     (let vals = List.map_filter id col
      in map (\<lambda>k. (k, count_list vals k)) (remdups vals))"

text \<open>
  \<open>df.groupby(key)[val].sum()\<close>: the distinct non-null keys in sorted order, each with
  the sum of the non-null values of its rows (rows with a null key are dropped, null
  values are skipped, a group of nulls only sums to 0).
\<close>

definition groupby_sum ::
  "('r \<Rightarrow> string option) \<Rightarrow> ('r \<Rightarrow> rat option) \<Rightarrow> 'r list \<Rightarrow> (string \<times> rat) list" where
  "groupby_sum key val df =
     map (\<lambda>k. (k, sum_list (List.map_filter val (filter (\<lambda>r. key r = Some k) df))))
       (sort (remdups (List.map_filter key df)))"

text \<open>
  \<open>Series.idxmax()\<close>: the label of the first maximal value; on an empty Series pandas
  raises \<open>ValueError\<close>.
\<close>

fun idxmax :: "(string \<times> rat) list \<Rightarrow> py_error + string" where
  "idxmax [] = Inl ValueError"
| "idxmax (p # ps) = Inr (fst (foldl (\<lambda>b q. if snd b < snd q then q else b) p ps))"

section \<open>Tagging metrics (lines 57 to 84)\<close>

definition tagged_counts :: "'a resource_scheme list \<Rightarrow> (string \<times> nat) list" where
  "tagged_counts df = value_counts (map Tagged df)"

text \<open>
  Line 63. \<open>tagged_counts.get('No', 0)\<close> is the Python int \<open>0\<close> when there is no entry
  for \<open>'No'\<close> and a numpy integer otherwise; \<open>len(df)\<close> is a Python int.
\<close>

definition percent_untagged :: "'a resource_scheme list \<Rightarrow> py_error + npfloat" where
  "percent_untagged df =
     (case map_of (tagged_counts df) ''No'' of
        None \<Rightarrow>
          (case py_truediv 0 (of_nat (length df)) of
             Inl e \<Rightarrow> Inl e
           | Inr q \<Rightarrow> Inr (times_100 q))
      | Some c \<Rightarrow> Inr (times_100 (np_truediv (of_nat c) (of_nat (length df)))))"

definition cost_by_tag :: "'a resource_scheme list \<Rightarrow> (string \<times> rat) list" where
  "cost_by_tag df = groupby_sum Tagged MonthlyCostUSD df"

definition total_cost :: "'a resource_scheme list \<Rightarrow> rat" where
  "total_cost df = sum_list (List.map_filter MonthlyCostUSD df)"

text \<open>
  Line 70 (and line 170 on the updated table). The total is a numpy scalar, so the
  division is numpy's whatever \<open>.get('No', 0)\<close> returned. Sums and quotient are exact
  here, where the code rounds to float64 and adds in row order: nothing below compares
  the totals or percentages of two tables whose rows are in different orders.
\<close>

definition percent_untagged_cost :: "'a resource_scheme list \<Rightarrow> npfloat" where
  "percent_untagged_cost df =
     (let untagged_cost = (case map_of (cost_by_tag df) ''No'' of None \<Rightarrow> 0 | Some c \<Rightarrow> c)
      in times_100 (np_truediv untagged_cost (total_cost df)))"

text \<open>Lines 63 to 70 in sequence: an exception at line 63 ends the run.\<close>

definition initial_percentages :: "'a resource_scheme list \<Rightarrow> py_error + (npfloat \<times> npfloat)" where
  "initial_percentages df =
     (case percent_untagged df of
        Inl e \<Rightarrow> Inl e
      | Inr p \<Rightarrow> Inr (p, percent_untagged_cost df))"

text \<open>
  The expressions of lines 77 and 78 and of lines 82 and 83, each taken alone. In the run
  they come after the percentages: see \<open>script_upto_argmax\<close>.
\<close>

definition untagged_dept_cost :: "'a resource_scheme list \<Rightarrow> (string \<times> rat) list" where
  "untagged_dept_cost df =
     groupby_sum Department MonthlyCostUSD (filter (\<lambda>r. Tagged r = Some ''No'') df)"

definition dept_most_untagged_cost :: "'a resource_scheme list \<Rightarrow> py_error + string" where
  "dept_most_untagged_cost df =
     (if untagged_dept_cost df \<noteq> [] then idxmax (untagged_dept_cost df) else Inr ''N/A'')"

definition project_cost :: "'a resource_scheme list \<Rightarrow> (string \<times> rat) list" where
  "project_cost df = groupby_sum Project MonthlyCostUSD df"

definition project_most_cost :: "'a resource_scheme list \<Rightarrow> py_error + string" where
  "project_most_cost df =
     (if project_cost df \<noteq> [] then idxmax (project_cost df) else Inr ''N/A'')"

text \<open>
  Lines 63 to 84 in sequence. The two arg-max expressions are reached only when the
  percentages of lines 63 and 70 raised nothing: an exception there ends the run.
\<close>

definition script_upto_argmax :: "'a resource_scheme list \<Rightarrow> py_error + (string \<times> string)" where
  "script_upto_argmax df =
     (case initial_percentages df of
        Inl e \<Rightarrow> Inl e
      | Inr _ \<Rightarrow>
          (case dept_most_untagged_cost df of
             Inl e \<Rightarrow> Inl e
           | Inr d \<Rightarrow>
               (case project_most_cost df of
                  Inl e \<Rightarrow> Inl e
                | Inr p \<Rightarrow> Inr (d, p))))"

section \<open>Tag completeness (lines 92 and 93)\<close>

definition tag_fields :: "('a resource_scheme \<Rightarrow> string option) list" where
  "tag_fields = [Department, Project, Owner, CostCenter]"

text \<open>\<open>df[tag_fields].notnull().sum(axis=1)\<close> for one row.\<close>

definition completeness_score :: "'a resource_scheme \<Rightarrow> int" where
  "completeness_score r = sum_list (map (\<lambda>f. if f r \<noteq> None then 1 else 0) tag_fields)"

text \<open>
  \<open>df['TagCompletenessScore'] = ...\<close> on a table of the ten documented columns: every
  row gets the new column.
\<close>

definition assign_TagCompletenessScore :: "resource list \<Rightarrow> scored_resource list" where
  "assign_TagCompletenessScore df =
     map (\<lambda>r. resource.extend r (scored_resource.fields (completeness_score r))) df"

text \<open>
  The same assignment on a table that already has a column of that name, as the file the
  script itself exports at line 158 has: the column is overwritten and none is added.
\<close>

definition overwrite_TagCompletenessScore :: "scored_resource list \<Rightarrow> scored_resource list" where
  "overwrite_TagCompletenessScore df =
     map (\<lambda>r. r\<lparr>TagCompletenessScore := completeness_score r\<rparr>) df"

text \<open>A loaded table, by whether its file had the column, and line 93 on either.\<close>

datatype loaded_table =
  Ten_columns "resource list" | With_score_column "scored_resource list"

fun set_TagCompletenessScore :: "loaded_table \<Rightarrow> scored_resource list" where
  "set_TagCompletenessScore (Ten_columns df) = assign_TagCompletenessScore df"
| "set_TagCompletenessScore (With_score_column df) = overwrite_TagCompletenessScore df"

section \<open>Tag remediation (lines 150 to 170)\<close>

definition untagged_df :: "'a resource_scheme list \<Rightarrow> 'a resource_scheme list" where
  "untagged_df df = filter (\<lambda>r. Tagged r = Some ''No'') df"

definition tagged_df :: "'a resource_scheme list \<Rightarrow> 'a resource_scheme list" where
  "tagged_df df = filter (\<lambda>r. Tagged r = Some ''Yes'') df"

text \<open>Line 157: the download of the button branch, built before the flag is recomputed.\<close>

definition combined_df ::
  "'a resource_scheme list \<Rightarrow> 'a resource_scheme list \<Rightarrow> 'a resource_scheme list" where
  "combined_df df edited_df = tagged_df df @ edited_df"

text \<open>
  Line 161 for one row:
  \<open>notnull().all(axis=1).map({True: 'Yes', False: 'No'})\<close> stored in \<open>Tagged\<close>.
\<close>

definition recomputed_flag :: "'a resource_scheme \<Rightarrow> string" where
  "recomputed_flag r = (if list_all (\<lambda>f. f r \<noteq> None) tag_fields then ''Yes'' else ''No'')"

definition recompute_Tagged :: "'a resource_scheme \<Rightarrow> 'a resource_scheme" where
  "recompute_Tagged r = r\<lparr>Tagged := Some (recomputed_flag r)\<rparr>"

text \<open>Line 162.\<close>

definition updated_df ::
  "'a resource_scheme list \<Rightarrow> 'a resource_scheme list \<Rightarrow> 'a resource_scheme list" where
  "updated_df df edited_df = tagged_df df @ map recompute_Tagged edited_df"

definition updated_cost_by_tag ::
  "'a resource_scheme list \<Rightarrow> 'a resource_scheme list \<Rightarrow> (string \<times> rat) list" where
  "updated_cost_by_tag df edited_df = cost_by_tag (updated_df df edited_df)"

definition updated_percent_untagged_cost ::
  "'a resource_scheme list \<Rightarrow> 'a resource_scheme list \<Rightarrow> npfloat" where
  "updated_percent_untagged_cost df edited_df = percent_untagged_cost (updated_df df edited_df)"

text \<open>
  The block of lines 150 to 173. The data editor is the user: it receives the untagged
  rows and returns any table of the same columns (cells edited, rows added or deleted).
  With no untagged row the block only prints a notice, which is \<open>None\<close> here.
\<close>

definition remediation ::
  "('a resource_scheme list \<Rightarrow> 'a resource_scheme list) \<Rightarrow> 'a resource_scheme list
     \<Rightarrow> ('a resource_scheme list \<times> (string \<times> rat) list \<times> npfloat) option" where
  "remediation data_editor df =
     (if untagged_df df \<noteq> [] then
        (let edited_df = data_editor (untagged_df df)
         in Some (updated_df df edited_df,
                  updated_cost_by_tag df edited_df,
                  updated_percent_untagged_cost df edited_df))
      else None)"

text \<open>
  The recompute applied to a table with nothing edited: the editor returns the
  untagged rows as they are.
\<close>

definition recompute :: "'a resource_scheme list \<Rightarrow> 'a resource_scheme list" where
  "recompute df = updated_df df (untagged_df df)"

section \<open>Ingestion and repair (lines 8 to 41)\<close>

text \<open>
  What \<open>pd.read_csv\<close> returns, before any dtype inference: the header row as the
  column names and the remaining records as rows of text fields.
\<close>

record frame =
  columns :: "string list"
  data :: "string list list"

text \<open>
  \<open>str.isspace\<close> on the ASCII range (tab, line feed, vertical tab, form feed, carriage
  return, the four separators 0x1C to 0x1F, space) and \<open>str.strip()\<close>.
\<close>

definition isspace :: "char \<Rightarrow> bool" where
  "isspace c = (let n = (of_char c :: nat) in (9 \<le> n \<and> n \<le> 13) \<or> (28 \<le> n \<and> n \<le> 32))"

definition strip :: "string \<Rightarrow> string" where
  "strip s = rev (dropWhile isspace (rev (dropWhile isspace s)))"

text \<open>\<open>open(path, 'r')\<close> reads with universal newlines: CR LF and a lone CR become LF.\<close>

fun universal_newlines :: "string \<Rightarrow> string" where
  "universal_newlines [] = []"
| "universal_newlines [c] = [if c = CHR 0x0D then CHR 0x0A else c]"
| "universal_newlines (c # d # cs) =
     (if c = CHR 0x0D \<and> d = CHR 0x0A then CHR 0x0A # universal_newlines cs
      else if c = CHR 0x0D then CHR 0x0A # universal_newlines (d # cs)
      else c # universal_newlines (d # cs))"

text \<open>\<open>f.readlines()\<close>: the lines of the text, each with its terminating line feed.\<close>

fun readlines :: "string \<Rightarrow> string list" where
  "readlines [] = []"
| "readlines (c # cs) =
     (if c = CHR 0x0A then [c] # readlines cs
      else (case readlines cs of [] \<Rightarrow> [[c]] | l # ls \<Rightarrow> (c # l) # ls))"

text \<open>Lines 23 to 26: the body of the loop for one line.\<close>

definition startswith_quote :: "string \<Rightarrow> bool" where
  "startswith_quote l = (case l of [] \<Rightarrow> False | c # _ \<Rightarrow> c = CHR 0x22)"

definition endswith_quote :: "string \<Rightarrow> bool" where
  "endswith_quote l = (case rev l of [] \<Rightarrow> False | c # _ \<Rightarrow> c = CHR 0x22)"

definition process_line :: "string \<Rightarrow> string" where
  "process_line line =
     (let l = strip line
      in if startswith_quote l \<and> endswith_quote l then butlast (tl l) else l)"

text \<open>\<open>'\n'.join(processed_lines)\<close>.\<close>

fun join_lines :: "string list \<Rightarrow> string" where
  "join_lines [] = []"
| "join_lines [l] = l"
| "join_lines (l # ls) = l @ CHR 0x0A # join_lines ls"

text \<open>Line 41: \<open>str.strip()\<close> then \<open>str.replace('"', '')\<close> on every column name.\<close>

definition normalize_column :: "string \<Rightarrow> string" where
  "normalize_column c = filter (\<lambda>x. x \<noteq> CHR 0x22) (strip c)"

text \<open>
  Lines 8 to 41. The file is its text, or \<open>None\<close> when it does not exist. The parser
  \<open>read_csv\<close> is the library's; its argument is the \<open>skipinitialspace\<close> option, the only
  one in which the call of line 10 (\<open>True\<close>) and the call of line 34 (left at the default,
  \<open>False\<close>) differ: separator and quote character are the same in both. An exception of
  the parser is not caught by the script.
\<close>

definition ingest ::
  "(bool \<Rightarrow> string \<Rightarrow> py_error + frame) \<Rightarrow> string option \<Rightarrow> py_error + frame" where
  "ingest read_csv file =
     (case file of
        None \<Rightarrow> Inl FileNotFoundError
      | Some raw \<Rightarrow>
          (case read_csv True raw of
             Inl e \<Rightarrow> Inl e
           | Inr df \<Rightarrow>
               (case (if length (columns df) = 1
                      then read_csv False
                             (join_lines (map process_line (readlines (universal_newlines raw))))
                      else Inr df) of
                  Inl e \<Rightarrow> Inl e
                | Inr df' \<Rightarrow> Inr (df'\<lparr>columns := map normalize_column (columns df')\<rparr>))))"

subsection \<open>The library's tokenizer\<close>

text \<open>
  A model of the tokenizer behind \<open>pd.read_csv\<close> for the options the script uses
  (separator comma, quote character double quote with doubling, blank lines skipped),
  on text whose records end with a line feed. It follows the states of the library's
  tokenizer; fields stay text, and the shape checks and dtype inference that follow
  tokenizing are left out, as are the library's treatment of a carriage return as a
  record end and its skipping of lines of blanks only. It serves to run \<open>ingest\<close> on
  concrete files that have none of these.
\<close>

datatype parser_state =
  START_RECORD | START_FIELD | IN_FIELD | IN_QUOTED_FIELD | QUOTE_IN_QUOTED_FIELD

type_synonym tokenizer = "parser_state \<times> string \<times> string list \<times> string list list"

definition start_field :: "bool \<Rightarrow> string \<Rightarrow> string list \<Rightarrow> string list list \<Rightarrow> char \<Rightarrow> tokenizer" where
  "start_field skipinitialspace fld rec out c =
     (if c = CHR 0x0A then (START_RECORD, [], [], out @ [rec @ [fld]])
      else if c = CHR 0x22 then (IN_QUOTED_FIELD, fld, rec, out)
      else if c = CHR '' '' \<and> skipinitialspace then (START_FIELD, fld, rec, out)
      else if c = CHR '','' then (START_FIELD, [], rec @ [fld], out)
      else (IN_FIELD, fld @ [c], rec, out))"

fun tokenize_char :: "bool \<Rightarrow> tokenizer \<Rightarrow> char \<Rightarrow> tokenizer" where
  "tokenize_char skipinitialspace (START_RECORD, fld, rec, out) c =
     (if c = CHR 0x0A then (START_RECORD, [], [], out)
      else start_field skipinitialspace [] [] out c)"
| "tokenize_char skipinitialspace (START_FIELD, fld, rec, out) c =
     start_field skipinitialspace fld rec out c"
| "tokenize_char skipinitialspace (IN_FIELD, fld, rec, out) c =
     (if c = CHR 0x0A then (START_RECORD, [], [], out @ [rec @ [fld]])
      else if c = CHR '','' then (START_FIELD, [], rec @ [fld], out)
      else (IN_FIELD, fld @ [c], rec, out))"
| "tokenize_char skipinitialspace (IN_QUOTED_FIELD, fld, rec, out) c =
     (if c = CHR 0x22 then (QUOTE_IN_QUOTED_FIELD, fld, rec, out)
      else (IN_QUOTED_FIELD, fld @ [c], rec, out))"
| "tokenize_char skipinitialspace (QUOTE_IN_QUOTED_FIELD, fld, rec, out) c =
     (if c = CHR 0x22 then (IN_QUOTED_FIELD, fld @ [c], rec, out)
      else if c = CHR '','' then (START_FIELD, [], rec @ [fld], out)
      else if c = CHR 0x0A then (START_RECORD, [], [], out @ [rec @ [fld]])
      else (IN_FIELD, fld @ [c], rec, out))"

fun handle_eof :: "tokenizer \<Rightarrow> string list list option" where
  "handle_eof (START_RECORD, fld, rec, out) = Some out"
| "handle_eof (IN_QUOTED_FIELD, fld, rec, out) = None"
| "handle_eof (st, fld, rec, out) = Some (out @ [rec @ [fld]])"

definition tokenize :: "bool \<Rightarrow> string \<Rightarrow> string list list option" where
  "tokenize skipinitialspace text =
     handle_eof (foldl (tokenize_char skipinitialspace) (START_RECORD, [], [], []) text)"

definition read_csv :: "bool \<Rightarrow> string \<Rightarrow> py_error + frame" where
  "read_csv skipinitialspace text =
     (case tokenize skipinitialspace text of
        None \<Rightarrow> Inl ParserError
      | Some [] \<Rightarrow> Inl EmptyDataError
      | Some (header # records) \<Rightarrow> Inr \<lparr>columns = header, data = records\<rparr>)"

section \<open>Sample inputs\<close>

text \<open>The two rows of the documented example, and rows with an unexpected or a null flag.\<close>

definition row_R1 :: resource where
  "row_R1 = \<lparr>ResourceID = Some ''R1'', Department = Some ''Eng'', Project = Some ''ProjA'',
     Owner = Some ''Alice'', CostCenter = Some ''CC1'', Service = Some ''EC2'',
     Region = Some ''us-east'', Environment = Some ''prod'', Tagged = Some ''Yes'',
     MonthlyCostUSD = Some (241 / 2)\<rparr>"

definition row_R2 :: resource where
  "row_R2 = \<lparr>ResourceID = Some ''R2'', Department = None, Project = None,
     Owner = None, CostCenter = None, Service = Some ''S3'',
     Region = Some ''us-west'', Environment = Some ''dev'', Tagged = Some ''No'',
     MonthlyCostUSD = Some 40\<rparr>"

definition row_R3 :: resource where
  "row_R3 = row_R1\<lparr>ResourceID := Some ''R3'', Tagged := Some ''No'', MonthlyCostUSD := Some 0\<rparr>"


definition row_null_flag :: resource where
  "row_null_flag = row_R2\<lparr>ResourceID := Some ''R5'', Tagged := None\<rparr>"

text \<open>
  The table of the documented example as the script exports it at line 158 once the
  user has filled the four tag fields of R2 in the editor: the score column still holds
  the scores of line 93, 4 and 0.
\<close>

definition row_R2_edited :: resource where
  "row_R2_edited = row_R2\<lparr>Department := Some ''Ops'', Project := Some ''ProjB'',
     Owner := Some ''Bob'', CostCenter := Some ''CC2''\<rparr>"

definition exported_table :: "scored_resource list" where
  "exported_table =
     [resource.extend row_R1 (scored_resource.fields 4),
      resource.extend row_R2_edited (scored_resource.fields 0)]"

text \<open>
  The files of the repair property, in the words of the specification: every line is the
  content line wrapped in one pair of double quotes, and the directly well-formed file
  has the same content lines with no wrapping quotes.
\<close>

definition wrap_lines :: "string list \<Rightarrow> string" where
  "wrap_lines ls = concat (map (\<lambda>l. CHR 0x22 # l @ [CHR 0x22, CHR 0x0A]) ls)"

definition plain_lines :: "string list \<Rightarrow> string" where
  "plain_lines ls = concat (map (\<lambda>l. l @ [CHR 0x0A]) ls)"

definition wrapped_file :: string where
  "wrapped_file =
     [CHR 0x22] @ ''ResourceID, Department'' @ [CHR 0x22, CHR 0x0A] @
     [CHR 0x22] @ ''R1, Eng'' @ [CHR 0x22, CHR 0x0A]"

definition plain_file :: string where
  "plain_file = ''ResourceID, Department'' @ [CHR 0x0A] @ ''R1, Eng'' @ [CHR 0x0A]"

section \<open>Tag completeness: properties\<close>

lemma tag_fields_all:
  "list_all (\<lambda>f. f r \<noteq> None) tag_fields \<longleftrightarrow>
     Department r \<noteq> None \<and> Project r \<noteq> None \<and> Owner r \<noteq> None \<and> CostCenter r \<noteq> None"
  by (simp add: tag_fields_def)

text \<open>
  C7. The completeness score of a record is an integer between 0 and 4, and it is 4
  exactly when the four tag fields Department, Project, Owner and CostCenter are all
  non-null.
\<close>

theorem completeness_score_range:
  "0 \<le> completeness_score r \<and> completeness_score r \<le> 4 \<and>
   (completeness_score r = 4 \<longleftrightarrow>
      Department r \<noteq> None \<and> Project r \<noteq> None \<and> Owner r \<noteq> None \<and> CostCenter r \<noteq> None)"
  by (simp add: completeness_score_def tag_fields_def)

lemma truncate_extend [simp]: "resource.truncate (resource.extend r m) = r"
  by (cases r) (simp add: resource.defs)

lemma extend_columns [simp]:
  "ResourceID (resource.extend r m) = ResourceID r"
  "Tagged (resource.extend r m) = Tagged r"
  "MonthlyCostUSD (resource.extend r m) = MonthlyCostUSD r"
  "TagCompletenessScore (resource.extend r (scored_resource.fields n)) = n"
  by (simp_all add: resource.defs scored_resource.defs)

lemma truncate_overwrite [simp]:
  "resource.truncate (r\<lparr>TagCompletenessScore := n\<rparr>) = resource.truncate r"
  by (simp add: resource.defs)

text \<open>
  C10, as the code has it. On a table that has no \<open>TagCompletenessScore\<close> column,
  enrichment adds that one column and changes nothing else: as many rows as before, and
  dropping the new column gives back the table, row by row in the same order and with
  the same value in every column that was there before. On a table that already has the
  column, no column is added: the column is overwritten with the recomputed scores, and
  the row count, the row order and the ten other columns are unchanged. In both cases
  the column holds the score of each row.
\<close>

theorem set_TagCompletenessScore_frame:
  "length (set_TagCompletenessScore (Ten_columns df)) = length df \<and>
   map resource.truncate (set_TagCompletenessScore (Ten_columns df)) = df \<and>
   map TagCompletenessScore (set_TagCompletenessScore (Ten_columns df)) =
     map completeness_score df \<and>
   map ResourceID (set_TagCompletenessScore (Ten_columns df)) = map ResourceID df \<and>
   map Tagged (set_TagCompletenessScore (Ten_columns df)) = map Tagged df \<and>
   map MonthlyCostUSD (set_TagCompletenessScore (Ten_columns df)) = map MonthlyCostUSD df \<and>
   length (set_TagCompletenessScore (With_score_column t)) = length t \<and>
   map resource.truncate (set_TagCompletenessScore (With_score_column t)) =
     map resource.truncate t \<and>
   map TagCompletenessScore (set_TagCompletenessScore (With_score_column t)) =
     map completeness_score t"
  by (simp add: assign_TagCompletenessScore_def overwrite_TagCompletenessScore_def comp_def
      completeness_score_def tag_fields_def)

text \<open>
  C10, as stated, fails on the table the script itself exports: it already has the
  score column, with 4 and 0; line 93 adds no column and changes the values of that
  pre-existing column to 4 and 4.
\<close>

theorem set_TagCompletenessScore_frame_counterexample:
  "map TagCompletenessScore exported_table = [4, 0] \<and>
   map TagCompletenessScore (set_TagCompletenessScore (With_score_column exported_table)) = [4, 4] \<and>
   map TagCompletenessScore (set_TagCompletenessScore (With_score_column exported_table)) \<noteq>
     map TagCompletenessScore exported_table"
  by (simp add: exported_table_def overwrite_TagCompletenessScore_def completeness_score_def
      tag_fields_def row_R1_def row_R2_def row_R2_edited_def resource.defs scored_resource.defs)

section \<open>Counts by tag status: properties\<close>

lemma sum_count_list_remdups:
  "sum_list (map (count_list xs) (remdups xs)) = length xs"
proof -
  have "sum_list (map (count_list xs) (remdups xs)) = sum (count_list xs) (set (remdups xs))"
    by (rule sum_list_distinct_conv_sum_set) simp
  also have "\<dots> = length xs"
    by (simp add: sum_count_set)
  finally show ?thesis .
qed

lemma sum_value_counts:
  "sum_list (map snd (value_counts col)) = length (filter (\<lambda>v. v \<noteq> None) col)"
proof -
  have "sum_list (map snd (value_counts col)) =
        sum_list (map (count_list (List.map_filter id col)) (remdups (List.map_filter id col)))"
    by (simp add: value_counts_def Let_def comp_def)
  also have "\<dots> = length (List.map_filter id col)"
    by (rule sum_count_list_remdups)
  also have "\<dots> = length (filter (\<lambda>v. v \<noteq> None) col)"
    by (simp add: List.map_filter_def)
  finally show ?thesis .
qed

text \<open>
  C6, as the code has it. The counts by tag status add up to the number of rows whose
  \<open>Tagged\<close> cell is not null: \<open>value_counts\<close> leaves null flags out. Every non-null
  flag value, expected or not, is counted.
\<close>

theorem tagged_counts_sum:
  "sum_list (map snd (tagged_counts df)) = length (filter (\<lambda>r. Tagged r \<noteq> None) df)"
  by (simp add: tagged_counts_def sum_value_counts filter_map comp_def)

text \<open>
  C6, as stated, fails on a table holding a row with a null flag: one row, counts that
  add up to 0.
\<close>

theorem tagged_counts_sum_counterexample:
  "sum_list (map snd (tagged_counts [row_null_flag])) \<noteq> length [row_null_flag]"
  by (simp add: tagged_counts_def value_counts_def List.map_filter_def
      row_null_flag_def row_R2_def)

section \<open>Arg-max over cost groups: properties\<close>

lemma groupby_sum_Nil [simp]: "groupby_sum key val [] = []"
  by (simp add: groupby_sum_def List.map_filter_def)

lemma idxmax_nonempty: "g \<noteq> [] \<Longrightarrow> \<exists>k. idxmax g = Inr k"
  by (cases g) simp_all

lemma initial_percentages_nonempty: "df \<noteq> [] \<Longrightarrow> \<exists>p. initial_percentages df = Inr p"
  by (simp add: initial_percentages_def percent_untagged_def py_truediv_def
      split: option.splits)

lemma dept_most_untagged_cost_Inr: "\<exists>d. dept_most_untagged_cost df = Inr d"
  by (cases "untagged_dept_cost df = []")
    (auto simp: dept_most_untagged_cost_def dest: idxmax_nonempty)

lemma project_most_cost_Inr: "\<exists>p. project_most_cost df = Inr p"
  by (cases "project_cost df = []")
    (auto simp: project_most_cost_def dest: idxmax_nonempty)

lemma script_upto_argmax_nonempty:
  assumes "df \<noteq> []"
  shows "\<exists>d p. dept_most_untagged_cost df = Inr d \<and> project_most_cost df = Inr p \<and>
           script_upto_argmax df = Inr (d, p)"
proof -
  obtain q where q: "initial_percentages df = Inr q"
    using initial_percentages_nonempty [OF assms] by blast
  obtain d where d: "dept_most_untagged_cost df = Inr d"
    using dept_most_untagged_cost_Inr by blast
  obtain p where p: "project_most_cost df = Inr p"
    using project_most_cost_Inr by blast
  from q d p show ?thesis
    by (simp add: script_upto_argmax_def)
qed

text \<open>
  C8. On a table with no rows the run ends at line 63 with \<open>ZeroDivisionError\<close> and
  never reaches the arg-max expressions of lines 78 and 83: there the sentinel is not
  returned. On every table with at least one row the run reaches both expressions and
  neither raises; whenever the group-by behind one of them is empty, as the one by
  department is on a table with no untagged row, that arg-max is the string \<open>N/A\<close>.
\<close>

theorem argmax_sentinel_in_sequence:
  "script_upto_argmax ([] :: resource list) = Inl ZeroDivisionError \<and>
   (df \<noteq> [] \<longrightarrow>
      (\<exists>d p. script_upto_argmax df = Inr (d, p)) \<and>
      (untagged_dept_cost df = [] \<longrightarrow> (\<exists>p. script_upto_argmax df = Inr (''N/A'', p))) \<and>
      (project_cost df = [] \<longrightarrow> (\<exists>d. script_upto_argmax df = Inr (d, ''N/A''))) \<and>
      (untagged_df df = [] \<longrightarrow> untagged_dept_cost df = []))"
proof -
  have empty: "script_upto_argmax ([] :: resource list) = Inl ZeroDivisionError"
    by (simp add: script_upto_argmax_def initial_percentages_def percent_untagged_def
        tagged_counts_def value_counts_def List.map_filter_def py_truediv_def)
  have reached: "(\<exists>d p. script_upto_argmax df = Inr (d, p)) \<and>
      (untagged_dept_cost df = [] \<longrightarrow> (\<exists>p. script_upto_argmax df = Inr (''N/A'', p))) \<and>
      (project_cost df = [] \<longrightarrow> (\<exists>d. script_upto_argmax df = Inr (d, ''N/A''))) \<and>
      (untagged_df df = [] \<longrightarrow> untagged_dept_cost df = [])" if ne: "df \<noteq> []"
  proof -
    obtain d p where dp: "dept_most_untagged_cost df = Inr d" "project_most_cost df = Inr p"
        "script_upto_argmax df = Inr (d, p)"
      using script_upto_argmax_nonempty [OF ne] by blast
    have "untagged_dept_cost df = [] \<longrightarrow> d = ''N/A''"
      using dp(1) by (auto simp: dept_most_untagged_cost_def)
    moreover have "project_cost df = [] \<longrightarrow> p = ''N/A''"
      using dp(2) by (auto simp: project_most_cost_def)
    moreover have "untagged_df df = [] \<longrightarrow> untagged_dept_cost df = []"
      by (simp add: untagged_dept_cost_def untagged_df_def)
    ultimately show ?thesis using dp(3) by auto
  qed
  from empty reached show ?thesis by blast
qed

theorem argmax_sentinel_in_sequence_witness:
  "[row_R2] \<noteq> [] \<and> untagged_dept_cost [row_R2] = [] \<and> project_cost [row_R2] = [] \<and>
   script_upto_argmax [row_R2] = Inr (''N/A'', ''N/A'') \<and>
   [row_R1] \<noteq> [] \<and> untagged_df [row_R1] = [] \<and>
   (\<exists>p. script_upto_argmax [row_R1] = Inr (''N/A'', p))"
proof -
  have d: "untagged_dept_cost [row_R2] = []" and p: "project_cost [row_R2] = []"
    by (simp_all add: untagged_dept_cost_def project_cost_def groupby_sum_def
        List.map_filter_def row_R2_def)
  have u: "untagged_df [row_R1] = []"
    by (simp add: untagged_df_def row_R1_def)
  have "script_upto_argmax [row_R2] = Inr (''N/A'', ''N/A'')"
    using argmax_sentinel_in_sequence [of "[row_R2]"] d p by auto
  moreover have "\<exists>p. script_upto_argmax [row_R1] = Inr (''N/A'', p)"
    using argmax_sentinel_in_sequence [of "[row_R1]"] u by auto
  ultimately show ?thesis using d p u by simp
qed

section \<open>Remediation: properties\<close>

text \<open>
  C4. The flag recomputed on an edited record is \<open>Yes\<close> exactly when its four tag
  fields Department, Project, Owner and CostCenter are all non-null, and \<open>No\<close>
  otherwise.
\<close>

theorem recompute_Tagged_flag:
  "(Tagged (recompute_Tagged r) = Some ''Yes'' \<longleftrightarrow>
      Department r \<noteq> None \<and> Project r \<noteq> None \<and> Owner r \<noteq> None \<and> CostCenter r \<noteq> None) \<and>
   (Tagged (recompute_Tagged r) = Some ''No'' \<longleftrightarrow>
      \<not> (Department r \<noteq> None \<and> Project r \<noteq> None \<and> Owner r \<noteq> None \<and> CostCenter r \<noteq> None)) \<and>
   (Tagged (recompute_Tagged r) = Some ''Yes'' \<or> Tagged (recompute_Tagged r) = Some ''No'')"
  by (simp add: recompute_Tagged_def recomputed_flag_def tag_fields_def)

lemma recompute_Tagged_Tagged:
  "Tagged (recompute_Tagged r) = Some ''Yes'' \<or> Tagged (recompute_Tagged r) = Some ''No''"
  by (simp add: recompute_Tagged_def recomputed_flag_def)

lemma recompute_Tagged_idem [simp]: "recompute_Tagged (recompute_Tagged r) = recompute_Tagged r"
  by (simp add: recompute_Tagged_def recomputed_flag_def tag_fields_def)

lemma recompute_Tagged_erase [simp]:
  "(recompute_Tagged r)\<lparr>Tagged := v\<rparr> = r\<lparr>Tagged := v\<rparr>"
  by (simp add: recompute_Tagged_def)

lemma recompute_Tagged_fields [simp]:
  "ResourceID (recompute_Tagged r) = ResourceID r"
  "MonthlyCostUSD (recompute_Tagged r) = MonthlyCostUSD r"
  by (simp_all add: recompute_Tagged_def)

lemma tagged_df_idem [simp]: "tagged_df (tagged_df df) = tagged_df df"
  by (simp add: tagged_df_def)

lemma untagged_tagged [simp]: "untagged_df (tagged_df df) = []"
  by (simp add: tagged_df_def untagged_df_def)

lemma tagged_df_append [simp]: "tagged_df (xs @ ys) = tagged_df xs @ tagged_df ys"
  by (simp add: tagged_df_def)

lemma untagged_df_append [simp]: "untagged_df (xs @ ys) = untagged_df xs @ untagged_df ys"
  by (simp add: untagged_df_def)

lemma map_recompute_untagged_recomputed [simp]:
  "map recompute_Tagged (untagged_df (map recompute_Tagged xs)) = untagged_df (map recompute_Tagged xs)"
  by (induction xs) (simp_all add: untagged_df_def)

lemma recompute_twice:
  "recompute (recompute df) =
     tagged_df df @ tagged_df (map recompute_Tagged (untagged_df df))
       @ untagged_df (map recompute_Tagged (untagged_df df))"
  by (simp add: recompute_def updated_df_def)

lemma mset_tagged_untagged_recomputed:
  "mset (tagged_df (map recompute_Tagged xs)) + mset (untagged_df (map recompute_Tagged xs))
     = mset (map recompute_Tagged xs)"
proof (induction xs)
  case Nil
  show ?case by (simp add: tagged_df_def untagged_df_def)
next
  case (Cons x xs)
  from recompute_Tagged_Tagged [of x] Cons show ?case
    by (auto simp: tagged_df_def untagged_df_def)
qed

lemma filter_flag_recomputed:
  "filter (\<lambda>r. Tagged r = k) (tagged_df (map recompute_Tagged xs))
     @ filter (\<lambda>r. Tagged r = k) (untagged_df (map recompute_Tagged xs))
   = filter (\<lambda>r. Tagged r = k) (map recompute_Tagged xs)"
proof (induction xs)
  case Nil
  show ?case by (simp add: tagged_df_def untagged_df_def)
next
  case (Cons x xs)
  have t: "filter (\<lambda>r. Tagged r = k) (tagged_df ys) = (if k = Some ''Yes'' then tagged_df ys else [])" for ys :: "'a resource_scheme list"
    by (induction ys) (auto simp: tagged_df_def)
  have u: "filter (\<lambda>r. Tagged r = k) (untagged_df ys) = (if k = Some ''No'' then untagged_df ys else [])" for ys :: "'a resource_scheme list"
    by (induction ys) (auto simp: untagged_df_def)
  from recompute_Tagged_Tagged [of x] Cons show ?case
    unfolding t u by (auto simp: tagged_df_def untagged_df_def)
qed

lemma filter_flag_recompute_twice:
  "filter (\<lambda>r. Tagged r = k) (recompute (recompute df)) = filter (\<lambda>r. Tagged r = k) (recompute df)"
  by (simp add: recompute_twice filter_flag_recomputed) (simp add: recompute_def updated_df_def)

lemma mset_recompute_twice: "mset (recompute (recompute df)) = mset (recompute df)"
  by (simp add: recompute_twice mset_tagged_untagged_recomputed add.assoc)
     (simp add: recompute_def updated_df_def)

lemma set_map_filter: "set (List.map_filter f xs) = {y. \<exists>x\<in>set xs. f x = Some y}"
  by (induction xs) (auto simp: List.map_filter_simps split: option.splits)

lemma groupby_sum_cong:
  assumes "\<And>k. filter (\<lambda>r. key r = Some k) xs = filter (\<lambda>r. key r = Some k) ys"
    and "set xs = set ys"
  shows "groupby_sum key val xs = groupby_sum key val ys"
proof -
  have "sort (remdups (List.map_filter key xs)) = sort (remdups (List.map_filter key ys))"
    using assms(2) by (simp add: sorted_list_of_set_sort_remdups [symmetric] set_map_filter)
  then show ?thesis
    by (simp add: groupby_sum_def assms(1))
qed

lemma cost_by_tag_recompute_twice:
  "cost_by_tag (recompute (recompute df)) = cost_by_tag (recompute df)"
  unfolding cost_by_tag_def
  by (rule groupby_sum_cong) (simp_all add: filter_flag_recompute_twice mset_eq_setD [OF mset_recompute_twice])

text \<open>
  C3. The recompute is idempotent on flags and aggregates. Applied a second time to its
  own result, with no field edited in between, it yields the same records with the same
  flags (the same multiset of rows) and, for every flag value, the same rows in the
  same order. So every aggregate \<open>S\<close> of the costs of one flag value taken in row order, a
  floating-point sum included, is the same, and the cost by tag status is the same.
\<close>

theorem recompute_idempotent:
  "mset (recompute (recompute df)) = mset (recompute df) \<and>
   filter (\<lambda>r. Tagged r = k) (recompute (recompute df)) =
     filter (\<lambda>r. Tagged r = k) (recompute df) \<and>
   S (map MonthlyCostUSD (filter (\<lambda>r. Tagged r = k) (recompute (recompute df)))) =
     S (map MonthlyCostUSD (filter (\<lambda>r. Tagged r = k) (recompute df))) \<and>
   cost_by_tag (recompute (recompute df)) = cost_by_tag (recompute df)"
  by (simp add: mset_recompute_twice filter_flag_recompute_twice cost_by_tag_recompute_twice)

text \<open>
  The rows themselves may come out in another order the second time: a row that the first
  pass flags \<open>Yes\<close> moves in front of the rows that stay \<open>No\<close>. A floating-point sum
  over the whole table, as the total of line 168 is, can therefore differ in its last
  digits between the two passes; the sums per flag value cannot.
\<close>

lemma recompute_reorders:
  "recompute (recompute [row_R2, row_R3]) \<noteq> recompute [row_R2, row_R3]"
  by (simp add: recompute_def updated_df_def tagged_df_def untagged_df_def
      recompute_Tagged_def recomputed_flag_def tag_fields_def row_R1_def row_R2_def row_R3_def)

text \<open>
  C5. The merged table is the original records whose flag is \<open>Yes\<close>, unchanged and in
  their original order, followed by the edited records in the order given. In the
  downloaded table of line 157 the edited records are as the editor returned them; in
  the updated table of line 162 they differ from that only in the recomputed flag, so
  every other field, the identifier among them, is preserved. Whenever the table has an
  untagged row, the remediation block produces this updated table.
\<close>

theorem merged_table_order:
  "take (length (tagged_df df)) (updated_df df edited_df) = tagged_df df \<and>
   drop (length (tagged_df df)) (updated_df df edited_df) = map recompute_Tagged edited_df \<and>
   take (length (tagged_df df)) (combined_df df edited_df) = tagged_df df \<and>
   drop (length (tagged_df df)) (combined_df df edited_df) = edited_df \<and>
   tagged_df df = filter (\<lambda>r. Tagged r = Some ''Yes'') df \<and>
   map (\<lambda>r. r\<lparr>Tagged := None\<rparr>) (map recompute_Tagged edited_df) =
     map (\<lambda>r. r\<lparr>Tagged := None\<rparr>) edited_df \<and>
   map ResourceID (updated_df df edited_df) =
     map ResourceID (filter (\<lambda>r. Tagged r = Some ''Yes'') df) @ map ResourceID edited_df \<and>
   (untagged_df df \<noteq> [] \<longrightarrow>
      (\<exists>c p. remediation data_editor df =
         Some (updated_df df (data_editor (untagged_df df)), c, p)))"
  by (simp add: updated_df_def combined_df_def remediation_def tagged_df_def comp_def Let_def)

theorem merged_table_order_witness:
  "untagged_df [row_R1, row_R2] \<noteq> [] \<and>
   (\<exists>c p. remediation (\<lambda>e. e) [row_R1, row_R2] = Some ([row_R1, row_R2], c, p))"
proof -
  have u: "untagged_df [row_R1, row_R2] = [row_R2]"
    by (simp add: untagged_df_def row_R1_def row_R2_def)
  have "updated_df [row_R1, row_R2] [row_R2] = [row_R1, row_R2]"
    by (simp add: updated_df_def tagged_df_def recompute_Tagged_def recomputed_flag_def
        tag_fields_def row_R1_def row_R2_def)
  with u merged_table_order [of "[row_R1, row_R2]" "[row_R2]" "\<lambda>e. e"] show ?thesis
    by simp
qed




section \<open>Percentages: division by zero\<close>

text \<open>
  C2. On a table with no rows the percentage of untagged resources (line 63) divides the
  Python int 0 by the Python int 0 and raises \<open>ZeroDivisionError\<close>, which ends the run.
  With a total cost of zero the percentage of untagged cost, before (line 70) and after
  remediation (line 170), is numpy's \<open>nan\<close>. Neither is 0.
\<close>

theorem percentages_division_by_zero:
  "percent_untagged ([] :: resource list) = Inl ZeroDivisionError \<and>
   initial_percentages ([] :: resource list) = Inl ZeroDivisionError \<and>
   percent_untagged_cost [row_R3] = NaN \<and>
   updated_percent_untagged_cost [row_R3] (untagged_df [row_R3]) = NaN"
  by (simp add: percent_untagged_def initial_percentages_def tagged_counts_def value_counts_def
      py_truediv_def np_truediv_def List.map_filter_def percent_untagged_cost_def
      cost_by_tag_def groupby_sum_def total_cost_def updated_percent_untagged_cost_def
      updated_df_def tagged_df_def untagged_df_def recompute_Tagged_def recomputed_flag_def
      tag_fields_def row_R1_def row_R3_def)

section \<open>Ingestion and repair: properties\<close>

lemma isspace_simps [simp]: "\<not> isspace (CHR 0x22)" "isspace (CHR 0x0A)"
  by (simp_all add: isspace_def)

lemma strip_wrapped [simp]:
  "strip (CHR 0x22 # l @ [CHR 0x22, CHR 0x0A]) = CHR 0x22 # l @ [CHR 0x22]"
  by (simp add: strip_def)

lemma process_line_wrapped [simp]:
  "process_line (CHR 0x22 # l @ [CHR 0x22, CHR 0x0A]) = l"
  by (simp add: process_line_def startswith_quote_def endswith_quote_def butlast_append)

lemma readlines_line:
  "CHR 0x0A \<notin> set l \<Longrightarrow> readlines (l @ CHR 0x0A # rest) = (l @ [CHR 0x0A]) # readlines rest"
  by (induction l) auto

lemma readlines_wrap_lines:
  "\<forall>l\<in>set ls. CHR 0x0A \<notin> set l \<Longrightarrow>
   readlines (wrap_lines ls) = map (\<lambda>l. CHR 0x22 # l @ [CHR 0x22, CHR 0x0A]) ls"
proof (induction ls)
  case Nil
  show ?case by (simp add: wrap_lines_def)
next
  case (Cons l ls)
  have "readlines ((CHR 0x22 # l @ [CHR 0x22]) @ CHR 0x0A # wrap_lines ls)
        = ((CHR 0x22 # l @ [CHR 0x22]) @ [CHR 0x0A]) # readlines (wrap_lines ls)"
    using Cons.prems by (intro readlines_line) simp
  with Cons show ?case by (simp add: wrap_lines_def)
qed

lemma universal_newlines_id:
  "CHR 0x0D \<notin> set s \<Longrightarrow> universal_newlines s = s"
  by (induction s rule: universal_newlines.induct) auto

lemma set_wrap_lines:
  "set (wrap_lines ls) \<subseteq> {CHR 0x22, CHR 0x0A} \<union> \<Union> (set ` set ls)"
  by (auto simp: wrap_lines_def)

lemma processed_lines_wrap_lines:
  assumes "\<forall>l\<in>set ls. CHR 0x0A \<notin> set l \<and> CHR 0x0D \<notin> set l"
  shows "map process_line (readlines (universal_newlines (wrap_lines ls))) = ls"
proof -
  have "CHR 0x0D \<notin> set (wrap_lines ls)"
    using assms set_wrap_lines [of ls] by auto
  then have "universal_newlines (wrap_lines ls) = wrap_lines ls"
    by (rule universal_newlines_id)
  moreover have "readlines (wrap_lines ls) = map (\<lambda>l. CHR 0x22 # l @ [CHR 0x22, CHR 0x0A]) ls"
    using assms by (intro readlines_wrap_lines) simp
  ultimately show ?thesis
    by (simp add: comp_def)
qed

text \<open>
  What the repair does by construction, for any parser: when every line of the file is a
  content line in one pair of double quotes and the first parse sees a single column,
  the result is the second parse (the call of line 34) of the content lines joined by
  line feeds, with the column names normalized.
\<close>

lemma ingest_wrap_lines:
  assumes "\<forall>l\<in>set ls. CHR 0x0A \<notin> set l \<and> CHR 0x0D \<notin> set l"
    and "rc True (wrap_lines ls) = Inr df" and "length (columns df) = 1"
  shows "ingest rc (Some (wrap_lines ls)) =
     (case rc False (join_lines ls) of
        Inl e \<Rightarrow> Inl e
      | Inr df' \<Rightarrow> Inr (df'\<lparr>columns := map normalize_column (columns df')\<rparr>))"
  using assms(2,3) by (simp add: ingest_def processed_lines_wrap_lines [OF assms(1)])

text \<open>
  C1. The repaired parse of a wrapped file and the parse of the directly well-formed file
  with the same content, run on the two-line file whose content has a space after the
  comma. Both files are of the shape the property speaks of. The wrapped file goes
  through the repair and is parsed a second time by the call of line 34, which does not
  skip the space after the delimiter: the cell is \<open>'' Eng''\<close>. The well-formed file is
  parsed by the call of line 10, which skips it: the cell is \<open>''Eng''\<close>. The two tables
  differ.
\<close>

theorem repaired_parse_keeps_initial_space:
  "wrapped_file = wrap_lines [''ResourceID, Department'', ''R1, Eng''] \<and>
   plain_file = plain_lines [''ResourceID, Department'', ''R1, Eng''] \<and>
   ingest read_csv (Some wrapped_file) =
     Inr \<lparr>columns = [''ResourceID'', ''Department''], data = [[''R1'', '' Eng'']]\<rparr> \<and>
   ingest read_csv (Some plain_file) =
     Inr \<lparr>columns = [''ResourceID'', ''Department''], data = [[''R1'', ''Eng'']]\<rparr>"
  by code_simp

end
